theory Spec2Isabelle
  imports Complex_Main
begin

section \<open>Arrays, errors and array helpers\<close>

text \<open>
  Two-dimensional float arrays are lists of rows over the reals (floating-point rounding is
  not modelled; the IEEE special values that decide a branch of the code are modelled where
  they occur, see \<open>fval\<close> below).  The shape of an array is the number of rows and the
  length of the first row; an array without rows has shape \<open>(0, 0)\<close>.  Where numpy
  yields \<open>inf\<close> or \<open>nan\<close> without raising (a division by a zero standard
  deviation, the logarithm of a number that is not positive, the square root of a negative
  variance) the model has some real number; the statements below that read such a value
  exclude those inputs by a hypothesis.
\<close>

type_synonym mat = "real list list"

datatype error =
    TypeError | ValueError | IndexError | ZeroDivisionError | AttributeError
  | LinAlgError | NotImplementedError | OptimizerError

definition shape :: "mat \<Rightarrow> nat \<times> nat" where
  "shape m = (length m, case m of [] \<Rightarrow> 0 | r # _ \<Rightarrow> length r)"

definition bind :: "error + 'a \<Rightarrow> ('a \<Rightarrow> error + 'b) \<Rightarrow> error + 'b" where
  "bind r f = (case r of Inl e \<Rightarrow> Inl e | Inr x \<Rightarrow> f x)"

section \<open>SvdProjection\<close>

text \<open>
  \<open>SvdProjection.__init__\<close>, lines 24--59: the shape check, the ranks of the inputs and
  the resolution of \<open>p_planes_dimensions\<close>.  \<open>matrix_rank\<close> is
  \<open>numpy.linalg.matrix_rank\<close>, a parameter.  \<open>n_left\<close> holds the larger and
  \<open>n_right\<close> the smaller dimension of every input; \<open>n_left[0]\<close> on an empty input
  list raises IndexError.
\<close>

definition sys_maxsize :: int where
  "sys_maxsize = 2 ^ 63 - 1"

definition max_shape :: "mat \<Rightarrow> nat" where
  "max_shape m = max (fst (shape m)) (snd (shape m))"

definition min_shape :: "mat \<Rightarrow> nat" where
  "min_shape m = min (fst (shape m)) (snd (shape m))"

definition py_min :: "nat list \<Rightarrow> nat" where
  "py_min xs = fold min (tl xs) (hd xs)"

definition py_max :: "nat list \<Rightarrow> nat" where
  "py_max xs = fold max (tl xs) (hd xs)"

definition check_shapes :: "mat list \<Rightarrow> error + (nat \<times> nat)" where
  "check_shapes input_points =
     (let n_left = map max_shape input_points;
          n_right = map min_shape input_points
      in case input_points of
           [] \<Rightarrow> Inl IndexError
         | _ # _ \<Rightarrow>
             (let bool_left = (count_list n_left (hd n_left) \<noteq> length n_left);
                  bool_right = (count_list n_right (hd n_right) \<noteq> length n_right)
              in if bool_left \<and> bool_right then Inl TypeError
                 else Inr (hd n_left, hd n_right)))"

definition resolve_rank :: "(mat \<Rightarrow> nat) \<Rightarrow> mat list \<Rightarrow> int \<Rightarrow> error + int" where
  "resolve_rank matrix_rank input_points p_planes_dimensions =
     (let ranks = map matrix_rank input_points
      in if p_planes_dimensions = 0 then Inr (int (py_min ranks))
         else if p_planes_dimensions = sys_maxsize then Inr (int (py_max ranks))
         else if list_ex (\<lambda>m. int (min_shape m) < p_planes_dimensions) input_points
              then Inl ValueError
              else Inr p_planes_dimensions)"

record svd_projection =
  input_points :: "mat list"
  psi :: "mat list"
  sigma :: "mat list"
  phi :: "mat list"
  n_psi :: nat
  n_phi :: nat
  p_planes_dimensions :: int
  ranks :: "int list"
  points_number :: nat
  max_rank :: int

definition np_diag :: "real list \<Rightarrow> mat" where
  "np_diag s = map (\<lambda>i. map (\<lambda>j. if i = j then s ! i else 0) [0..<length s]) [0..<length s]"

text \<open>
  The constructor.  \<open>svd\<close> is the truncated singular value decomposition of
  \<open>UQpy.utilities.Utilities\<close> (left vectors, singular values, right vectors), a
  parameter; it is called only after both checks have passed.
\<close>

definition SvdProjection_init ::
  "(mat \<Rightarrow> nat) \<Rightarrow> (mat \<Rightarrow> int \<Rightarrow> mat \<times> real list \<times> mat) \<Rightarrow> mat list \<Rightarrow> int
     \<Rightarrow> error + svd_projection" where
  "SvdProjection_init matrix_rank svd pts p =
     bind (check_shapes pts) (\<lambda>(npsi, nphi).
     bind (resolve_rank matrix_rank pts p) (\<lambda>p'.
       (let rks = replicate (length pts) p';
            usv = map (\<lambda>(m, r). svd m r) (zip pts rks)
        in Inr \<lparr> input_points = pts,
                 psi = map fst usv,
                 sigma = map (\<lambda>t. np_diag (fst (snd t))) usv,
                 phi = map (\<lambda>t. snd (snd t)) usv,
                 n_psi = npsi, n_phi = nphi,
                 p_planes_dimensions = p',
                 ranks = rks,
                 points_number = length pts,
                 max_rank = fold max (tl rks) (hd rks) \<rparr>)))"

text \<open>
  The matrix rank in exact arithmetic, by elimination on the first column: the instance of
  \<open>matrix_rank\<close> used at concrete inputs.
\<close>

definition row_sub :: "real list \<Rightarrow> real list \<Rightarrow> real list" where
  "row_sub pv r = map (\<lambda>(a, b). b - (hd r / hd pv) * a) (zip pv r)"

fun gauss_rank_aux :: "nat \<Rightarrow> mat \<Rightarrow> nat" where
  "gauss_rank_aux 0 rs = 0"
| "gauss_rank_aux (Suc c) rs =
     (case filter (\<lambda>r. hd r \<noteq> 0) rs of
        [] \<Rightarrow> gauss_rank_aux c (map tl rs)
      | pv # _ \<Rightarrow> Suc (gauss_rank_aux c (map (\<lambda>r. tl (row_sub pv r)) (remove1 pv rs))))"

definition gauss_rank :: "mat \<Rightarrow> nat" where
  "gauss_rank m = gauss_rank_aux (snd (shape m)) m"

section \<open>Grassmann manifold interpolation\<close>

text \<open>
  The value passed as \<open>interpolation_method\<close>.  The constructor and
  \<open>interpolate_manifold\<close> compare it by identity (\<open>is\<close>) with the class object
  \<open>Surrogate\<close> and with the builtin function \<open>callable\<close>, so the two objects are
  values of their own, apart from an instance of a surrogate class and a function of the
  user.
\<close>

datatype ('s, 'f) interpolation_method =
    SurrogateClass | CallableBuiltin | SurrogateObject 's | UserFunction 'f | NoneValue

record ('s, 'f) manifold_interpolation =
  interpolation_method :: "('s, 'f) interpolation_method"
  mean :: mat
  tangent_points :: "mat list"
  surrogates :: "('s, 'f) interpolation_method list list option"
  coordinates :: "real list list option"

text \<open>
  The collaborators: the Grassmann primitives, the surrogate's \<open>fit\<close> and
  \<open>predict\<close>, the call of a user function and scipy's \<open>LinearNDInterpolator\<close>.
\<close>

record ('s, 'f, 'd) grassmann_env =
  karcher_mean :: "mat list \<Rightarrow> string \<Rightarrow> 'd \<Rightarrow> mat"
  log_map :: "mat list \<Rightarrow> mat \<Rightarrow> mat list"
  exp_map :: "mat list \<Rightarrow> mat \<Rightarrow> mat list"
  surrogate_fit :: "'s \<Rightarrow> real list list \<Rightarrow> mat \<Rightarrow> 's"
  surrogate_predict :: "'s \<Rightarrow> real list \<Rightarrow> real"
  call_function :: "'f \<Rightarrow> real list list \<Rightarrow> mat list \<Rightarrow> real list \<Rightarrow> mat"
  linear_nd :: "real list list \<Rightarrow> mat list \<Rightarrow> real list \<Rightarrow> mat"

definition entry :: "mat \<Rightarrow> nat \<Rightarrow> nat \<Rightarrow> error + real" where
  "entry m j k =
     (if j < length m \<and> k < length (m ! j) then Inr (m ! j ! k) else Inl IndexError)"

fun sequence :: "(error + 'a) list \<Rightarrow> error + 'a list" where
  "sequence [] = Inr []"
| "sequence (r # rs) = bind r (\<lambda>x. bind (sequence rs) (\<lambda>xs. Inr (x # xs)))"

text \<open>
  One pass of the body of the constructor's double loop, lines 46--50: the values of entry
  \<open>(j, k)\<close> of every tangent point, then the store of the copied method into
  \<open>self.surrogates[j][k]\<close> (a list assignment: IndexError beyond the end of the row),
  then the fit of the stored object.
\<close>

definition fit_entry ::
  "('s, 'f, 'd) grassmann_env \<Rightarrow> ('s, 'f) interpolation_method \<Rightarrow> mat list \<Rightarrow> real list list
     \<Rightarrow> ('s, 'f) interpolation_method list list \<Rightarrow> nat \<times> nat
     \<Rightarrow> error + ('s, 'f) interpolation_method list list" where
  "fit_entry E im tps coords srs jk =
     (case jk of (j, k) \<Rightarrow>
        bind (sequence (map (\<lambda>t. entry t j k) tps)) (\<lambda>vals.
          if j < length srs \<and> k < length (srs ! j)
          then (case im of
                  SurrogateObject s \<Rightarrow>
                    Inr (srs[j := (srs ! j)[k := SurrogateObject
                           (surrogate_fit E s coords (map (\<lambda>v. [v]) vals))]])
                | _ \<Rightarrow> Inl TypeError)
          else Inl IndexError))"

fun fit_entries ::
  "('s, 'f, 'd) grassmann_env \<Rightarrow> ('s, 'f) interpolation_method \<Rightarrow> mat list \<Rightarrow> real list list
     \<Rightarrow> ('s, 'f) interpolation_method list list \<Rightarrow> (nat \<times> nat) list
     \<Rightarrow> error + ('s, 'f) interpolation_method list list" where
  "fit_entries E im tps coords srs [] = Inr srs"
| "fit_entries E im tps coords srs (jk # jks) =
     bind (fit_entry E im tps coords srs jk) (\<lambda>srs'. fit_entries E im tps coords srs' jks)"

definition index_pairs :: "nat \<Rightarrow> nat \<Rightarrow> (nat \<times> nat) list" where
  "index_pairs n_rows n_cols = concat (map (\<lambda>j. map (\<lambda>k. (j, k)) [0..<n_cols]) [0..<n_rows])"

definition ManifoldInterpolation_init ::
  "('s, 'f, 'd) grassmann_env \<Rightarrow> ('s, 'f) interpolation_method \<Rightarrow> mat list \<Rightarrow> real list list
     \<Rightarrow> 'd \<Rightarrow> string \<Rightarrow> error + ('s, 'f) manifold_interpolation" where
  "ManifoldInterpolation_init E im manifold_data coords distance optimization_method =
     (let mu = karcher_mean E manifold_data optimization_method distance;
          tps = log_map E manifold_data mu;
          self = \<lparr> interpolation_method = im, mean = mu, tangent_points = tps,
                   surrogates = None, coordinates = None \<rparr>
      in if im = SurrogateClass
         then (case tps of
                 [] \<Rightarrow> Inl IndexError
               | t0 # _ \<Rightarrow>
                   bind (fit_entries E im tps coords [[]]
                           (index_pairs (fst (shape t0)) (snd (shape t0))))
                     (\<lambda>srs. Inr (self\<lparr>surrogates := Some srs\<rparr>)))
         else Inr (self\<lparr>coordinates := Some coords\<rparr>))"

definition predict_entry ::
  "('s, 'f, 'd) grassmann_env \<Rightarrow> ('s, 'f) interpolation_method list list option \<Rightarrow> real list
     \<Rightarrow> nat \<Rightarrow> nat \<Rightarrow> error + real" where
  "predict_entry E srs point j k =
     (case srs of
        None \<Rightarrow> Inl AttributeError
      | Some rows \<Rightarrow>
          if j < length rows \<and> k < length (rows ! j)
          then (case rows ! j ! k of
                  SurrogateObject s \<Rightarrow> Inr (surrogate_predict E s point)
                | _ \<Rightarrow> Inl TypeError)
          else Inl IndexError)"

text \<open>
  \<open>interpolate_manifold\<close>: the shape check of lines 65--69, then the three branches of
  lines 71--80 in the order of the source, then the exponential map at the cached mean.
  Calling the builtin \<open>callable\<close> with three arguments raises TypeError.
\<close>

definition interpolate_manifold ::
  "('s, 'f, 'd) grassmann_env \<Rightarrow> ('s, 'f) manifold_interpolation \<Rightarrow> real list
     \<Rightarrow> error + mat list" where
  "interpolate_manifold E self point =
     (case tangent_points self of
        [] \<Rightarrow> Inl IndexError
      | t0 # ts \<Rightarrow>
          (let shape_ref = shape t0; n_rows = fst shape_ref; n_cols = snd shape_ref
           in if list_ex (\<lambda>t. shape t \<noteq> shape_ref) ts then Inl TypeError
              else bind
                (if interpolation_method self = SurrogateClass
                 then sequence (map (\<lambda>j. sequence (map (\<lambda>k.
                        predict_entry E (surrogates self) point j k) [0..<n_cols])) [0..<n_rows])
                 else if interpolation_method self = CallableBuiltin
                 then Inl TypeError
                 else (case coordinates self of
                         None \<Rightarrow> Inl AttributeError
                       | Some cs \<Rightarrow> Inr (linear_nd E cs (tangent_points self) point)))
                (\<lambda>interp_point. Inr (exp_map E [interp_point] (mean self)))))"

section \<open>Gaussian process regressor: arrays\<close>

text \<open>
  numpy's broadcasting of two one-dimensional operands, and of two two-dimensional ones
  (an operand with one row, or rows with one entry, is repeated); operands that do not
  broadcast raise ValueError.
\<close>

definition np_bin :: "(real \<Rightarrow> real \<Rightarrow> real) \<Rightarrow> real list \<Rightarrow> real list \<Rightarrow> error + real list" where
  "np_bin f xs ys =
     (if length xs = length ys then Inr (map (\<lambda>(a, b). f a b) (zip xs ys))
      else if length xs = 1 then Inr (map (\<lambda>b. f (hd xs) b) ys)
      else if length ys = 1 then Inr (map (\<lambda>a. f a (hd ys)) xs)
      else Inl ValueError)"

definition np_bin2 :: "(real \<Rightarrow> real \<Rightarrow> real) \<Rightarrow> mat \<Rightarrow> mat \<Rightarrow> error + mat" where
  "np_bin2 f a b =
     (if length a = length b then sequence (map (\<lambda>(r, q). np_bin f r q) (zip a b))
      else if length a = 1 then sequence (map (\<lambda>q. np_bin f (hd a) q) b)
      else if length b = 1 then sequence (map (\<lambda>r. np_bin f r (hd b)) a)
      else Inl ValueError)"

definition np_rows :: "(real \<Rightarrow> real \<Rightarrow> real) \<Rightarrow> mat \<Rightarrow> real list \<Rightarrow> error + mat" where
  "np_rows f a v = np_bin2 f a [v]"

definition eye :: "nat \<Rightarrow> mat" where
  "eye n = map (\<lambda>i. map (\<lambda>j. if i = j then 1 else 0) [0..<n]) [0..<n]"

definition smul :: "real \<Rightarrow> mat \<Rightarrow> mat" where
  "smul c a = map (map (\<lambda>v. c * v)) a"

definition dot :: "real list \<Rightarrow> real list \<Rightarrow> real" where
  "dot xs ys = sum_list (map (\<lambda>(a, b). a * b) (zip xs ys))"

definition matmul :: "mat \<Rightarrow> mat \<Rightarrow> error + mat" where
  "matmul a b =
     (if list_all (\<lambda>r. length r = length b) a
      then Inr (map (\<lambda>r. map (\<lambda>c. dot r c) (transpose b)) a)
      else Inl ValueError)"

definition diagonal :: "mat \<Rightarrow> real list" where
  "diagonal a = map (\<lambda>i. a ! i ! i) [0..<min (fst (shape a)) (snd (shape a))]"

definition py_last :: "'a list \<Rightarrow> error + 'a" where
  "py_last xs = (case xs of [] \<Rightarrow> Inl IndexError | _ # _ \<Rightarrow> Inr (last xs))"

definition jitter :: real where
  "jitter = 1 / 10 ^ 10"

section \<open>Gaussian process regressor: data and collaborators\<close>

text \<open>
  A value of the objective as the optimizer reports it: a finite float or one of the IEEE
  special values.  \<open>fless\<close> is the comparison \<open><\<close> of floats (false when an operand
  is NaN).
\<close>

datatype fval = Fin real | PInf | NInf | NaN

fun fless :: "fval \<Rightarrow> fval \<Rightarrow> bool" where
  "fless NaN _ = False"
| "fless _ NaN = False"
| "fless PInf _ = False"
| "fless NInf NInf = False"
| "fless NInf _ = True"
| "fless (Fin a) (Fin b) = (a < b)"
| "fless (Fin a) PInf = True"
| "fless (Fin a) NInf = False"

text \<open>
  Python's builtin \<open>min\<close> over the rows of \<open>fun_value\<close> (the first item is kept until
  a later one compares smaller), and \<open>numpy.argmin\<close> (the first index of the minimum; a
  NaN counts as the minimum and ends the search).
\<close>

definition builtin_min :: "fval list \<Rightarrow> fval" where
  "builtin_min xs = fold (\<lambda>x m. if fless x m then x else m) (tl xs) (hd xs)"

fun argmin_from :: "fval \<Rightarrow> nat \<Rightarrow> nat \<Rightarrow> fval list \<Rightarrow> nat" where
  "argmin_from mp mi i [] = mi"
| "argmin_from mp mi i (x # xs) =
     (if mp = NaN then mi
      else if x = NaN \<or> fless x mp then argmin_from x i (Suc i) xs
      else argmin_from mp mi (Suc i) xs)"

definition np_argmin :: "fval list \<Rightarrow> nat" where
  "np_argmin xs = argmin_from (hd xs) 0 1 (tl xs)"

datatype ndarray = Array1 "real list" | Array2 mat

definition np_size :: "ndarray \<Rightarrow> nat" where
  "np_size a = (case a of Array1 v \<Rightarrow> length v | Array2 m \<Rightarrow> length (concat m))"

definition flat :: "ndarray \<Rightarrow> real list" where
  "flat a = (case a of Array1 v \<Rightarrow> v | Array2 m \<Rightarrow> concat m)"

definition reshape :: "nat \<Rightarrow> nat \<Rightarrow> real list \<Rightarrow> mat" where
  "reshape n k xs = map (\<lambda>i. take k (drop (i * k) xs)) [0..<n]"

definition atleast_2d :: "ndarray \<Rightarrow> mat" where
  "atleast_2d a = (case a of Array1 v \<Rightarrow> [v] | Array2 m \<Rightarrow> m)"

definition np_mean0 :: "mat \<Rightarrow> real list" where
  "np_mean0 a = map (\<lambda>c. sum_list c / real (length c)) (transpose a)"

definition np_std0 :: "mat \<Rightarrow> real list" where
  "np_std0 a =
     map (\<lambda>c. sqrt (sum_list (map (\<lambda>v. (v - sum_list c / real (length c)) ^ 2) c)
                 / real (length c))) (transpose a)"

datatype opt_result = Ndarray "real list" | OptimizeResult "real list" fval

record ('c, 'a) optimizer =
  opt_bounds :: "(real \<times> real) list option"
  opt_constraints :: "'c option"
  opt_constraints_argument :: "'a option"

record ('c, 'a) constraints_gpr =
  constraints :: "mat \<Rightarrow> mat \<Rightarrow> 'c"
  args :: 'a

text \<open>
  The collaborators of the regressor: the kernel's \<open>c\<close>, scipy's \<open>cholesky\<close> (lower
  factor) and \<open>cho_solve\<close>, numpy's \<open>cholesky\<close>, the optimizer's \<open>optimize\<close> (it
  receives the objective as a function and returns an array or a result object), and the
  unit variates that numpy's global generator yields for the entries of the draw of one
  \<open>fit\<close> call (\<open>numpy.random.uniform(low, high)\<close> is \<open>low + (high - low) * u\<close>).
\<close>

record ('c, 'a) gpr_env =
  kernel_c :: "mat \<Rightarrow> mat \<Rightarrow> real list \<Rightarrow> error + mat"
  cholesky :: "mat \<Rightarrow> error + mat"
  np_cholesky :: "mat \<Rightarrow> error + mat"
  cho_solve :: "mat \<Rightarrow> mat \<Rightarrow> error + mat"
  optimizer_optimize ::
    "('c, 'a) optimizer \<Rightarrow> (real list \<Rightarrow> error + real) \<Rightarrow> real list \<Rightarrow> error + opt_result"
  global_uniform :: "nat \<Rightarrow> nat \<Rightarrow> real"

text \<open>
  The instance.  \<open>values_gpr\<close> and \<open>normalize_gpr\<close> are the attributes \<open>values\<close>
  and \<open>normalize\<close>; \<open>gpr_K\<close>, \<open>gpr_cc\<close> and \<open>gpr_alpha\<close> are \<open>K\<close>,
  \<open>cc\<close> (the Cholesky factor) and \<open>alpha_\<close> (the factor-solve).  \<open>bounds\<close> holds
  the bounds as the constructor resolved them.
\<close>

record ('c, 'a, 'r) gpr =
  hyperparameters :: "real list"
  bounds :: "(real \<times> real) list"
  optimizer :: "('c, 'a) optimizer"
  optimizations_number :: int
  optimize :: bool
  optimize_constraints :: "('c, 'a) constraints_gpr option"
  normalize_gpr :: bool
  random_state :: "'r option"
  samples :: "mat option"
  values_gpr :: "mat option"
  sample_mean :: "real list option"
  sample_std :: "real list option"
  value_mean :: "real list option"
  value_std :: "real list option"
  gpr_K :: "mat option"
  gpr_cc :: "mat option"
  gpr_alpha :: "mat option"

definition default_bounds :: "nat \<Rightarrow> (real \<times> real) list" where
  "default_bounds n = butlast (replicate n (1 / 10 ^ 3, 10 ^ 3)) @ [(1 / 10 ^ 10, 1 / 10)]"

definition GaussianProcessRegressor_init ::
  "real list \<Rightarrow> ('c, 'a) optimizer \<Rightarrow> (real \<times> real) list option \<Rightarrow> bool
     \<Rightarrow> ('c, 'a) constraints_gpr option \<Rightarrow> int \<Rightarrow> bool \<Rightarrow> 'r option
     \<Rightarrow> error + ('c, 'a, 'r) gpr" where
  "GaussianProcessRegressor_init hyp opt bnds optim cons nopt nrm rs =
     (let self = \<lparr> hyperparameters = hyp, bounds = [], optimizer = opt,
                   optimizations_number = nopt, optimize = optim,
                   optimize_constraints = cons, normalize_gpr = nrm, random_state = rs,
                   samples = None, values_gpr = None, sample_mean = None, sample_std = None,
                   value_mean = None, value_std = None, gpr_K = None, gpr_cc = None,
                   gpr_alpha = None \<rparr>
      in case bnds of
           Some b \<Rightarrow> Inr (self\<lparr>bounds := b\<rparr>)
         | None \<Rightarrow>
             (case opt_bounds opt of
                Some b \<Rightarrow> Inr (self\<lparr>bounds := b\<rparr>)
              | None \<Rightarrow>
                  if hyp = [] then Inl IndexError
                  else Inr (self\<lparr>bounds := default_bounds (length hyp)\<rparr>)))"

section \<open>The objective\<close>

text \<open>
  \<open>log_likelihood\<close>, lines 302--317.  The kernel is evaluated first, then \<open>p0[-1]\<close>
  is read (IndexError on an empty vector).  \<open>term1\<close> is the matrix \<open>y.T @ x\<close>; the
  scalars are added to each of its entries and entry \<open>[0, 0]\<close> is returned.
\<close>

definition log_likelihood ::
  "('c, 'a) gpr_env \<Rightarrow> real list \<Rightarrow> mat \<Rightarrow> mat \<Rightarrow> error + real" where
  "log_likelihood E p0 s y =
     (let m = fst (shape s) in
      bind (kernel_c E s s (map (\<lambda>v. 10 powr v) (butlast p0))) (\<lambda>km.
      bind (py_last p0) (\<lambda>pl.
      bind (np_bin2 (+) km (smul ((10 powr pl) ^ 2) (eye m))) (\<lambda>kn.
      bind (np_bin2 (+) kn (smul jitter (eye m))) (\<lambda>kj.
      bind (cholesky E kj) (\<lambda>cc.
      bind (cho_solve E cc y) (\<lambda>x.
      bind (matmul (transpose y) x) (\<lambda>term1.
        (let term2 = 2 * sum_list (map (\<lambda>v. ln \<bar>v\<bar>) (diagonal cc))
         in entry (map (map (\<lambda>t. 0.5 * (t + term2 + real m * ln (2 * pi)))) term1) 0 0)))))))))"

text \<open>
  What the objective relies on from scipy: \<open>cholesky\<close> returns a factor \<open>L\<close> with
  \<open>L @ L.T = A\<close> and a positive diagonal, and \<open>cho_solve\<close>, given the factor of
  \<open>A\<close>, returns the solution \<open>x\<close> of \<open>A @ x = b\<close>.
\<close>

definition cholesky_contract :: "('c, 'a) gpr_env \<Rightarrow> bool" where
  "cholesky_contract E \<longleftrightarrow>
     (\<forall>A L. cholesky E A = Inr L \<longrightarrow>
        matmul L (transpose L) = Inr A \<and> list_all (\<lambda>d. 0 < d) (diagonal L))"

definition cho_solve_contract :: "('c, 'a) gpr_env \<Rightarrow> bool" where
  "cho_solve_contract E \<longleftrightarrow>
     (\<forall>A L b x. cholesky E A = Inr L \<and> cho_solve E L b = Inr x \<longrightarrow> matmul A x = Inr b)"

section \<open>fit\<close>

text \<open>
  Lines 128--148: the arguments are stored in the instance, one assignment after the other,
  and the training data are normalised.  The result is the instance as it stands when the
  stage ends, and either the error raised or the normalised data with \<open>nsamples\<close> and \<open>input_dim\<close>.
\<close>

definition fit_store ::
  "('c, 'a, 'r) gpr \<Rightarrow> mat \<Rightarrow> ndarray \<Rightarrow> int option \<Rightarrow> real list option
     \<Rightarrow> ('c, 'a, 'r) gpr \<times> (error + mat \<times> mat \<times> nat \<times> nat)" where
  "fit_store self smp vals nopt hyp =
     (let self1 = (case nopt of None \<Rightarrow> self | Some n \<Rightarrow> self\<lparr>optimizations_number := n\<rparr>);
          self2 = (case hyp of None \<Rightarrow> self1 | Some h \<Rightarrow> self1\<lparr>hyperparameters := h\<rparr>);
          self3 = self2\<lparr>samples := Some smp\<rparr>;
          nsamples = fst (shape smp);
          input_dim = snd (shape smp)
      in if nsamples = 0 then (self3, Inl ZeroDivisionError)
         else
           (let output_dim = np_size vals div nsamples
            in if nsamples * output_dim \<noteq> np_size vals then (self3, Inl ValueError)
               else
                 (let v = reshape nsamples output_dim (flat vals);
                      self4 = self3\<lparr>values_gpr := Some v\<rparr>
                  in if normalize_gpr self4
                     then
                       (let self5 = self4\<lparr>sample_mean := Some (np_mean0 smp),
                                           sample_std := Some (np_std0 smp),
                                           value_mean := Some (np_mean0 v),
                                           value_std := Some (np_std0 v)\<rparr>
                        in (self5,
                            bind (np_rows (-) smp (np_mean0 smp)) (\<lambda>ds.
                            bind (np_rows (/) ds (np_std0 smp)) (\<lambda>s1.
                            bind (np_rows (-) v (np_mean0 v)) (\<lambda>dv.
                            bind (np_rows (/) dv (np_std0 v)) (\<lambda>y1.
                              Inr (s1, y1, nsamples, input_dim)))))))
                     else (self4, Inr (smp, v, nsamples, input_dim)))))"

text \<open>
  Lines 156--163: the starting points.  A vector whose length is neither the row length
  nor one does not broadcast (ValueError); a negative number of rows is a ValueError, and
  the assignment to row 0 of an array without rows an IndexError.
\<close>

definition broadcast_to :: "nat \<Rightarrow> real list \<Rightarrow> error + real list" where
  "broadcast_to d v =
     (if length v = d then Inr v
      else if length v = 1 then Inr (replicate d (hd v))
      else Inl ValueError)"

definition starting_points ::
  "('c, 'a) gpr_env \<Rightarrow> ('c, 'a, 'r) gpr \<Rightarrow> nat \<Rightarrow> error + mat" where
  "starting_points E self input_dim =
     (let lb = map (\<lambda>xy. log 10 (fst xy)) (bounds self);
          ub = map (\<lambda>xy. log 10 (snd xy)) (bounds self);
          d2 = input_dim + 2
      in if optimizations_number self < 0 then Inl ValueError
         else
           bind (broadcast_to d2 lb) (\<lambda>lo.
           bind (broadcast_to d2 ub) (\<lambda>hi.
             (let starting_point =
                    map (\<lambda>i. map (\<lambda>j. lo ! j + (hi ! j - lo ! j) * global_uniform E i j)
                                [0..<d2])
                        [0..<nat (optimizations_number self)]
              in case starting_point of
                   [] \<Rightarrow> Inl IndexError
                 | _ # rest \<Rightarrow>
                     bind (broadcast_to d2 (map (log 10) (hyperparameters self)))
                       (\<lambda>row0. Inr (row0 # rest))))))"

text \<open>
  Lines 182--187: what one optimizer run stores in \<open>minimizer\<close> and \<open>fun_value\<close>.
  For an array the objective is evaluated once more, and an error of that evaluation
  propagates.
\<close>

definition store_run ::
  "('c, 'a) gpr_env \<Rightarrow> mat \<Rightarrow> mat \<Rightarrow> nat \<Rightarrow> opt_result \<Rightarrow> error + (real list \<times> fval)" where
  "store_run E s1 y1 d2 pr =
     (case pr of
        Ndarray p \<Rightarrow>
          bind (broadcast_to d2 p) (\<lambda>row.
          bind (log_likelihood E p s1 y1) (\<lambda>v. Inr (row, Fin v)))
      | OptimizeResult x f \<Rightarrow>
          bind (broadcast_to d2 x) (\<lambda>row. Inr (row, f)))"

text \<open>
  Lines 176--187, the loop over the restarts.  Beside the rows stored (or the error raised)
  the function returns the initial guesses of the optimizer runs that were started, in
  order.
\<close>

fun mle_runs ::
  "('c, 'a) gpr_env \<Rightarrow> ('c, 'a) optimizer \<Rightarrow> mat \<Rightarrow> mat \<Rightarrow> nat \<Rightarrow> real list list
     \<Rightarrow> real list list \<times> (error + (real list \<times> fval) list)" where
  "mle_runs E opt s1 y1 d2 [] = ([], Inr [])"
| "mle_runs E opt s1 y1 d2 (x0 # rest) =
     (case bind (optimizer_optimize E opt (\<lambda>p. log_likelihood E p s1 y1) x0)
                (store_run E s1 y1 d2) of
        Inl e \<Rightarrow> ([x0], Inl e)
      | Inr row \<Rightarrow>
          (case mle_runs E opt s1 y1 d2 rest of
             (tr, r) \<Rightarrow> (x0 # tr, bind r (\<lambda>rows. Inr (row # rows)))))"

text \<open>
  Lines 153--193, the branch \<open>if self.optimize\<close>.  Returns the instance, the optimizer
  runs started and the error raised, if any.
\<close>

definition fit_mle ::
  "('c, 'a) gpr_env \<Rightarrow> ('c, 'a, 'r) gpr \<Rightarrow> mat \<Rightarrow> mat \<Rightarrow> nat
     \<Rightarrow> ('c, 'a, 'r) gpr \<times> real list list \<times> error option" where
  "fit_mle E self s1 y1 input_dim =
     (let self1 = self\<lparr>gpr_alpha := None\<rparr>
      in case starting_points E self1 input_dim of
           Inl e \<Rightarrow> (self1, [], Some e)
         | Inr starting_point \<Rightarrow>
             (let opt =
                    (case optimize_constraints self1 of
                       Some oc \<Rightarrow>
                         (optimizer self1)
                           \<lparr>opt_constraints :=
                              Some (constraints oc (the (samples self1)) (the (values_gpr self1))),
                            opt_constraints_argument := Some (args oc)\<rparr>
                     | None \<Rightarrow>
                         (optimizer self1)
                           \<lparr>opt_bounds :=
                              Some (map (\<lambda>xy. (log 10 (fst xy), log 10 (snd xy)))
                                        (bounds self1))\<rparr>);
                  self2 = self1\<lparr>optimizer := opt\<rparr>
              in case mle_runs E opt s1 y1 (input_dim + 2) starting_point of
                   (tr, Inl e) \<Rightarrow> (self2, tr, Some e)
                 | (tr, Inr rows) \<Rightarrow>
                     (let minimizer = map fst rows; fun_value = map snd rows
                      in if builtin_min fun_value = PInf
                         then (self2, tr, Some NotImplementedError)
                         else
                           (let t = np_argmin fun_value
                            in (self2\<lparr>hyperparameters :=
                                         map (\<lambda>v. 10 powr v) (minimizer ! t)\<rparr>,
                                tr, None)))))"

text \<open>Lines 196--200: the covariance matrix, its factor and the factor-solve.\<close>

definition fit_factorize ::
  "('c, 'a) gpr_env \<Rightarrow> ('c, 'a, 'r) gpr \<Rightarrow> mat \<Rightarrow> mat \<Rightarrow> nat
     \<Rightarrow> ('c, 'a, 'r) gpr \<times> error option" where
  "fit_factorize E self s1 y1 nsamples =
     (case bind (kernel_c E s1 s1 (butlast (hyperparameters self))) (\<lambda>km.
           bind (py_last (hyperparameters self)) (\<lambda>hl.
             np_bin2 (+) km (smul (hl ^ 2) (eye nsamples)))) of
        Inl e \<Rightarrow> (self, Some e)
      | Inr k \<Rightarrow>
          (let self1 = self\<lparr>gpr_K := Some k\<rparr>
           in case bind (np_bin2 (+) k (smul jitter (eye nsamples))) (cholesky E) of
                Inl e \<Rightarrow> (self1, Some e)
              | Inr c \<Rightarrow>
                  (let self2 = self1\<lparr>gpr_cc := Some c\<rparr>
                   in case cho_solve E c y1 of
                        Inl e \<Rightarrow> (self2, Some e)
                      | Inr a \<Rightarrow> (self2\<lparr>gpr_alpha := Some a\<rparr>, None))))"

text \<open>
  \<open>fit\<close>: the instance after the call, the optimizer runs started, and the error raised
  (\<open>None\<close> when the call returns).
\<close>

definition fit ::
  "('c, 'a) gpr_env \<Rightarrow> ('c, 'a, 'r) gpr \<Rightarrow> mat \<Rightarrow> ndarray \<Rightarrow> int option \<Rightarrow> real list option
     \<Rightarrow> ('c, 'a, 'r) gpr \<times> real list list \<times> error option" where
  "fit E self smp vals nopt hyp =
     (case fit_store self smp vals nopt hyp of
        (self1, Inl e) \<Rightarrow> (self1, [], Some e)
      | (self1, Inr (s1, y1, nsamples, input_dim)) \<Rightarrow>
          if optimize self1
          then (case fit_mle E self1 s1 y1 input_dim of
                  (self2, tr, Some e) \<Rightarrow> (self2, tr, Some e)
                | (self2, tr, None) \<Rightarrow>
                    (case fit_factorize E self2 s1 y1 nsamples of
                       (self3, r) \<Rightarrow> (self3, tr, r)))
          else (case fit_factorize E self1 s1 y1 nsamples of
                  (self3, r) \<Rightarrow> (self3, [], r)))"

section \<open>predict\<close>

text \<open>
  \<open>predict\<close>, lines 216--258.  An attribute that is still \<open>None\<close> where an array is
  needed is a TypeError.  The result is the mean and, with \<open>return_std\<close>, the standard
  deviation; \<open>Array1\<close> is a one-dimensional array.
\<close>

definition predict_data ::
  "('c, 'a, 'r) gpr \<Rightarrow> ndarray \<Rightarrow> error + mat \<times> mat \<times> mat" where
  "predict_data self points =
     (let x0 = atleast_2d points
      in case (samples self, values_gpr self) of
           (Some smp, Some v) \<Rightarrow>
             if normalize_gpr self
             then (case (sample_mean self, sample_std self, value_mean self, value_std self) of
                     (Some sm, Some ss, Some vm, Some vs) \<Rightarrow>
                       bind (np_rows (-) x0 sm) (\<lambda>dx.
                       bind (np_rows (/) dx ss) (\<lambda>x1.
                       bind (np_rows (-) smp sm) (\<lambda>ds.
                       bind (np_rows (/) ds ss) (\<lambda>s1.
                       bind (np_rows (-) v vm) (\<lambda>dv.
                       bind (np_rows (/) dv vs) (\<lambda>y1. Inr (x1, s1, y1)))))))
                   | _ \<Rightarrow> Inl TypeError)
             else Inr (x0, smp, v)
         | _ \<Rightarrow> Inl TypeError)"

definition predict_factor ::
  "('c, 'a) gpr_env \<Rightarrow> ('c, 'a, 'r) gpr \<Rightarrow> real list \<Rightarrow> mat \<Rightarrow> mat
     \<Rightarrow> error + mat option \<times> mat" where
  "predict_factor E self h s1 y1 =
     (case gpr_alpha self of
        None \<Rightarrow>
          (let n = fst (shape (the (samples self))) in
           bind (kernel_c E s1 s1 (butlast h)) (\<lambda>km.
           bind (py_last h) (\<lambda>hl.
           bind (np_bin2 (+) km (smul (hl ^ 2) (eye n))) (\<lambda>k.
           bind (np_bin2 (+) k (smul jitter (eye n))) (\<lambda>kj.
           bind (np_cholesky E kj) (\<lambda>c.
           bind (cho_solve E c y1) (\<lambda>a. Inr (Some c, a))))))))
      | Some a \<Rightarrow> Inr (gpr_cc self, a))"



section \<open>Instances used at concrete inputs\<close>

text \<open>
  Three square inputs of ranks 2, 3 and 4 with five rows and columns, and two inputs with
  equal column count and different row counts.
\<close>

definition rank2_5x5 :: mat where
  "rank2_5x5 = [[1,0,0,0,0],[0,1,0,0,0],[0,0,0,0,0],[0,0,0,0,0],[0,0,0,0,0]]"

definition rank3_5x5 :: mat where
  "rank3_5x5 = [[1,0,0,0,0],[0,1,0,0,0],[0,0,1,0,0],[0,0,0,0,0],[0,0,0,0,0]]"

definition rank4_5x5 :: mat where
  "rank4_5x5 = [[1,0,0,0,0],[0,1,0,0,0],[0,0,1,0,0],[0,0,0,1,0],[0,0,0,0,0]]"

definition ones_3x2 :: mat where
  "ones_3x2 = [[1,1],[1,1],[1,1]]"

definition ones_4x2 :: mat where
  "ones_4x2 = [[1,1],[1,1],[1,1],[1,1]]"

text \<open>
  A stand-in for the decomposition; no statement below reads what it returns.
\<close>

definition svd_none :: "mat \<Rightarrow> int \<Rightarrow> mat \<times> real list \<times> mat" where
  "svd_none m r = ([], [], [])"

text \<open>
  For the regressor: the squared-exponential kernel (length scales, then the process
  standard deviation), the factorisation and the factor-solve of a system with one
  equation, an optimizer that evaluates the objective at its initial guess and reports that
  point, and one that only hands the initial guess back as an array.
\<close>

definition rbf_c :: "mat \<Rightarrow> mat \<Rightarrow> real list \<Rightarrow> error + mat" where
  "rbf_c x s params =
     (case params of
        [] \<Rightarrow> Inl IndexError
      | _ # _ \<Rightarrow>
          Inr (map (\<lambda>xi. map (\<lambda>sj. (last params) ^ 2 *
                 exp (- (sum_list (map (\<lambda>((a, b), l). ((a - b) / l) ^ 2)
                                      (zip (zip xi sj) (butlast params)))) / 2)) s) x))"

definition chol_scalar :: "mat \<Rightarrow> error + mat" where
  "chol_scalar A =
     (case A of
        [[a]] \<Rightarrow> if 0 < a then Inr [[sqrt a]] else Inl LinAlgError
      | _ \<Rightarrow> Inl LinAlgError)"

definition solve_scalar :: "mat \<Rightarrow> mat \<Rightarrow> error + mat" where
  "solve_scalar L b =
     (case (L, b) of
        ([[l]], [r]) \<Rightarrow> Inr [map (\<lambda>v. v / (l * l)) r]
      | _ \<Rightarrow> Inl ValueError)"

definition opt_eval ::
  "(unit, unit) optimizer \<Rightarrow> (real list \<Rightarrow> error + real) \<Rightarrow> real list \<Rightarrow> error + opt_result" where
  "opt_eval opt f x0 = bind (f x0) (\<lambda>v. Inr (OptimizeResult x0 (Fin v)))"

definition opt_array ::
  "(unit, unit) optimizer \<Rightarrow> (real list \<Rightarrow> error + real) \<Rightarrow> real list \<Rightarrow> error + opt_result" where
  "opt_array opt f x0 = Inr (Ndarray x0)"

definition env_ex :: "(nat \<Rightarrow> nat \<Rightarrow> real) \<Rightarrow> (unit, unit) gpr_env" where
  "env_ex u = \<lparr> kernel_c = rbf_c, cholesky = chol_scalar, np_cholesky = chol_scalar,
                cho_solve = solve_scalar, optimizer_optimize = opt_eval,
                global_uniform = u \<rparr>"

definition opt_ex :: "(unit, unit) optimizer" where
  "opt_ex = \<lparr> opt_bounds = None, opt_constraints = None, opt_constraints_argument = None \<rparr>"

text \<open>
  A regressor as the constructor leaves it, with explicit bounds, no constraints, no
  normalisation and the seed 42.
\<close>

definition gpr_new :: "real list \<Rightarrow> (real \<times> real) list \<Rightarrow> bool \<Rightarrow> int \<Rightarrow> (unit, unit, nat) gpr" where
  "gpr_new hyp bnds optim nopt =
     \<lparr> hyperparameters = hyp, bounds = bnds, optimizer = opt_ex,
       optimizations_number = nopt, optimize = optim, optimize_constraints = None,
       normalize_gpr = False, random_state = Some 42,
       samples = None, values_gpr = None, sample_mean = None, sample_std = None,
       value_mean = None, value_std = None, gpr_K = None, gpr_cc = None,
       gpr_alpha = None \<rparr>"

text \<open>
  Two states of numpy's global generator: one whose variates are all 0, one whose variates
  are all 1/2.
\<close>

definition draw_zero :: "nat \<Rightarrow> nat \<Rightarrow> real" where
  "draw_zero i j = 0"

definition draw_half :: "nat \<Rightarrow> nat \<Rightarrow> real" where
  "draw_half i j = 1 / 2"


text \<open>
  A regressor with optimisation enabled, two restarts, three hyperparameters with bounds
  \<open>[1, 100]\<close> each; its training set is the point 0 with the value 100.
\<close>

definition gpr_ex :: "(unit, unit, nat) gpr" where
  "gpr_ex = gpr_new [1, 1, 1] [(1, 100), (1, 100), (1, 100)] True 2"


text \<open>
  A kernel whose matrix is not positive definite for a large process variance (the entries
  are \<open>3 - 2 * sigma ^ 2\<close>), with the optimizer that hands its initial guess back: the
  factorisation succeeds at the hyperparameters \<open>[1, 1, 1]\<close> and fails at
  \<open>[10, 10, 10]\<close>.
\<close>

definition affine_c :: "mat \<Rightarrow> mat \<Rightarrow> real list \<Rightarrow> error + mat" where
  "affine_c x s params =
     (case params of
        [] \<Rightarrow> Inl IndexError
      | _ # _ \<Rightarrow> Inr (map (\<lambda>xi. map (\<lambda>sj. 3 - 2 * (last params) ^ 2) s) x))"

definition env_bad :: "(nat \<Rightarrow> nat \<Rightarrow> real) \<Rightarrow> (unit, unit) gpr_env" where
  "env_bad u = \<lparr> kernel_c = affine_c, cholesky = chol_scalar, np_cholesky = chol_scalar,
                 cho_solve = solve_scalar, optimizer_optimize = opt_array,
                 global_uniform = u \<rparr>"

section \<open>Properties of SvdProjection\<close>

lemma py_min_Min: "xs \<noteq> [] \<Longrightarrow> py_min xs = Min (set xs)"
proof (cases xs)
  case Nil
  assume "xs \<noteq> []"
  with Nil show ?thesis by simp
next
  case (Cons a list)
  show ?thesis using Min.set_eq_fold[of a list] by (simp add: py_min_def Cons)
qed

lemma py_max_Max: "xs \<noteq> [] \<Longrightarrow> py_max xs = Max (set xs)"
proof (cases xs)
  case Nil
  assume "xs \<noteq> []"
  with Nil show ?thesis by simp
next
  case (Cons a list)
  show ?thesis using Max.set_eq_fold[of a list] by (simp add: py_max_def Cons)
qed

lemma check_shapes_nonempty: "check_shapes pts = Inr ab \<Longrightarrow> pts \<noteq> []"
  by (auto simp: check_shapes_def)

lemma init_planes:
  "check_shapes pts = Inr ab \<Longrightarrow> resolve_rank mr pts p = Inr q \<Longrightarrow>
   map_sum id p_planes_dimensions (SvdProjection_init mr svd pts p) = Inr q"
  by (cases ab) (simp add: SvdProjection_init_def bind_def Let_def)

lemma init_raises:
  "check_shapes pts = Inr ab \<Longrightarrow> resolve_rank mr pts p = Inl e \<Longrightarrow>
   SvdProjection_init mr svd pts p = Inl e"
  by (cases ab) (simp add: SvdProjection_init_def bind_def)

text \<open>
  Claim C6, as amended.  When the shape check passes: the sentinel 0 resolves to the minimum
  of the ranks of the inputs and the sentinel \<open>sys.maxsize\<close> to the maximum; any other
  rank raises ValueError when it exceeds the smaller dimension of some input and is used as
  it is otherwise; for inputs of ranks 2, 3 and 4 the sentinel 0 resolves to 2.  An explicit
  rank of 5 therefore raises exactly when some input has a smaller dimension below 5.
\<close>

theorem svd_rank_resolution:
  assumes "check_shapes pts = Inr ab"
  shows "(p = 0 \<longrightarrow>
            map_sum id p_planes_dimensions (SvdProjection_init mr svd pts p)
              = Inr (int (Min (mr ` set pts))))
       \<and> (p = sys_maxsize \<longrightarrow>
            map_sum id p_planes_dimensions (SvdProjection_init mr svd pts p)
              = Inr (int (Max (mr ` set pts))))
       \<and> (p \<noteq> 0 \<and> p \<noteq> sys_maxsize \<and> (\<exists>m \<in> set pts. int (min_shape m) < p) \<longrightarrow>
            SvdProjection_init mr svd pts p = Inl ValueError)
       \<and> (p \<noteq> 0 \<and> p \<noteq> sys_maxsize \<and> (\<forall>m \<in> set pts. p \<le> int (min_shape m)) \<longrightarrow>
            map_sum id p_planes_dimensions (SvdProjection_init mr svd pts p) = Inr p)
       \<and> (p = 0 \<and> map mr pts = [2, 3, 4] \<longrightarrow>
            map_sum id p_planes_dimensions (SvdProjection_init mr svd pts p) = Inr 2)"
proof -
  have ne: "pts \<noteq> []" using assms by (rule check_shapes_nonempty)
  have mn: "py_min (map mr pts) = Min (mr ` set pts)"
    using ne py_min_Min[of "map mr pts"] by simp
  have mx: "py_max (map mr pts) = Max (mr ` set pts)"
    using ne py_max_Max[of "map mr pts"] by simp
  have c1: "p = 0 \<Longrightarrow> resolve_rank mr pts p = Inr (int (Min (mr ` set pts)))"
    by (simp add: resolve_rank_def mn)
  have c2: "p = sys_maxsize \<Longrightarrow> resolve_rank mr pts p = Inr (int (Max (mr ` set pts)))"
    by (simp add: resolve_rank_def mx sys_maxsize_def)
  have c3: "p \<noteq> 0 \<Longrightarrow> p \<noteq> sys_maxsize \<Longrightarrow> \<exists>m \<in> set pts. int (min_shape m) < p \<Longrightarrow>
            resolve_rank mr pts p = Inl ValueError"
    by (simp add: resolve_rank_def list_ex_iff)
  have c4: "p \<noteq> 0 \<Longrightarrow> p \<noteq> sys_maxsize \<Longrightarrow> \<forall>m \<in> set pts. p \<le> int (min_shape m) \<Longrightarrow>
            resolve_rank mr pts p = Inr p"
    by (auto simp: resolve_rank_def list_ex_iff)
  have c5: "p = 0 \<Longrightarrow> map mr pts = [2, 3, 4] \<Longrightarrow> resolve_rank mr pts p = Inr 2"
    by (simp add: resolve_rank_def py_min_def)
  show ?thesis
    using c1 c2 c3 c4 c5 init_planes[OF assms] init_raises[OF assms] by metis
qed

lemma ranks_5x5: "map gauss_rank [rank2_5x5, rank3_5x5, rank4_5x5] = [2, 3, 4]"
  by (simp add: gauss_rank_def rank2_5x5_def rank3_5x5_def rank4_5x5_def shape_def row_sub_def)

lemma shapes_5x5: "check_shapes [rank2_5x5, rank3_5x5, rank4_5x5] = Inr (5, 5)"
  by (simp add: check_shapes_def rank2_5x5_def rank3_5x5_def rank4_5x5_def max_shape_def
      min_shape_def shape_def)

lemma min_shape_5x5:
  "min_shape rank2_5x5 = 5" "min_shape rank3_5x5 = 5" "min_shape rank4_5x5 = 5"
  by (simp_all add: rank2_5x5_def rank3_5x5_def rank4_5x5_def min_shape_def shape_def)

text \<open>
  Witness for C6: three inputs with five rows and columns, of ranks 2, 3 and 4; the sentinel
  0 gives 2, the rank 6 raises ValueError and the rank 4 is kept.
\<close>

theorem svd_rank_resolution_witness:
  "map_sum id p_planes_dimensions
     (SvdProjection_init gauss_rank svd_none [rank2_5x5, rank3_5x5, rank4_5x5] 0) = Inr 2
   \<and> SvdProjection_init gauss_rank svd_none [rank2_5x5, rank3_5x5, rank4_5x5] 6 = Inl ValueError
   \<and> map_sum id p_planes_dimensions
       (SvdProjection_init gauss_rank svd_none [rank2_5x5, rank3_5x5, rank4_5x5] 4) = Inr 4"
  using svd_rank_resolution[OF shapes_5x5, of 0 gauss_rank svd_none]
        svd_rank_resolution[OF shapes_5x5, of 6 gauss_rank svd_none]
        svd_rank_resolution[OF shapes_5x5, of 4 gauss_rank svd_none]
        ranks_5x5
  by (simp add: sys_maxsize_def min_shape_5x5)

text \<open>
  Counterexample to C6 as stated: the three inputs have ranks 2, 3 and 4, the rank 5 is
  requested, and no error is raised: 5 does not exceed the smaller dimension 5 of any
  input, so the constructor goes on with \<open>p_planes_dimensions = 5\<close>.
\<close>

theorem explicit_rank_5_counterexample:
  "map gauss_rank [rank2_5x5, rank3_5x5, rank4_5x5] = [2, 3, 4]
   \<and> check_shapes [rank2_5x5, rank3_5x5, rank4_5x5] = Inr (5, 5)
   \<and> resolve_rank gauss_rank [rank2_5x5, rank3_5x5, rank4_5x5] 5 = Inr 5
   \<and> map_sum id p_planes_dimensions
       (SvdProjection_init gauss_rank svd_none [rank2_5x5, rank3_5x5, rank4_5x5] 5) = Inr 5"
proof -
  have r: "resolve_rank gauss_rank [rank2_5x5, rank3_5x5, rank4_5x5] 5 = Inr 5"
    by (simp add: resolve_rank_def sys_maxsize_def min_shape_5x5)
  show ?thesis using ranks_5x5 shapes_5x5 r init_planes[OF shapes_5x5 r] by simp
qed

text \<open>
  Claim C7 at a failing input: two inputs with 3 and 4 rows and 2 columns each.  The row
  counts differ, \<open>bool_left\<close> is true and \<open>bool_right\<close> is false, and the conjunction
  of the two lets the list pass: no TypeError, and \<open>n_psi = 3\<close> is recorded although the
  second input has 4 rows.
\<close>

theorem row_mismatch_accepted:
  "fst (shape ones_3x2) \<noteq> fst (shape ones_4x2)
   \<and> check_shapes [ones_3x2, ones_4x2] = Inr (3, 2)
   \<and> resolve_rank gauss_rank [ones_3x2, ones_4x2] 2 = Inr 2
   \<and> map_sum id n_psi (SvdProjection_init gauss_rank svd_none [ones_3x2, ones_4x2] 2) = Inr 3"
  by (simp add: check_shapes_def resolve_rank_def SvdProjection_init_def bind_def sys_maxsize_def
      Let_def ones_3x2_def ones_4x2_def max_shape_def min_shape_def shape_def)


section \<open>Properties of ManifoldInterpolation\<close>

lemma init_not_class:
  "im \<noteq> SurrogateClass \<Longrightarrow>
   ManifoldInterpolation_init E im md cs d om =
     Inr \<lparr> interpolation_method = im,
           mean = karcher_mean E md om d,
           tangent_points = log_map E md (karcher_mean E md om d),
           surrogates = None, coordinates = Some cs \<rparr>"
  by (simp add: ManifoldInterpolation_init_def Let_def)

lemma interpolate_linear:
  "interpolation_method self \<noteq> SurrogateClass \<Longrightarrow>
   interpolation_method self \<noteq> CallableBuiltin \<Longrightarrow>
   coordinates self = Some cs \<Longrightarrow>
   interpolate_manifold E self pt =
     (case tangent_points self of
        [] \<Rightarrow> Inl IndexError
      | t0 # ts \<Rightarrow>
          if list_ex (\<lambda>t. shape t \<noteq> shape t0) ts then Inl TypeError
          else Inr (exp_map E [linear_nd E cs (tangent_points self) pt] (mean self)))"
  by (simp add: interpolate_manifold_def Let_def bind_def split: list.splits)

text \<open>
  Claim C8 at a failing input: an instance of a surrogate class (or a function of the user)
  passed as \<open>interpolation_method\<close>.  It is neither the class object \<open>Surrogate\<close> nor
  the builtin \<open>callable\<close>, so the constructor fits no surrogate and
  \<open>interpolate_manifold\<close> takes the last branch: the result is that of the default
  \<open>None\<close>, the piecewise-linear interpolant mapped back at the mean; the injected object
  is never used.
\<close>

theorem injected_methods_ignored:
  "bind (ManifoldInterpolation_init E (SurrogateObject s) md cs d om)
        (\<lambda>self. interpolate_manifold E self pt)
     = bind (ManifoldInterpolation_init E NoneValue md cs d om)
            (\<lambda>self. interpolate_manifold E self pt)
   \<and> bind (ManifoldInterpolation_init E (UserFunction f) md cs d om)
          (\<lambda>self. interpolate_manifold E self pt)
     = bind (ManifoldInterpolation_init E NoneValue md cs d om)
            (\<lambda>self. interpolate_manifold E self pt)
   \<and> map_sum id surrogates (ManifoldInterpolation_init E (SurrogateObject s) md cs d om)
     = Inr None
   \<and> bind (ManifoldInterpolation_init E NoneValue md cs d om)
          (\<lambda>self. interpolate_manifold E self pt)
     = (case log_map E md (karcher_mean E md om d) of
          [] \<Rightarrow> Inl IndexError
        | t0 # ts \<Rightarrow>
            if list_ex (\<lambda>t. shape t \<noteq> shape t0) ts then Inl TypeError
            else Inr (exp_map E [linear_nd E cs (log_map E md (karcher_mean E md om d)) pt]
                        (karcher_mean E md om d)))"
  by (simp add: init_not_class bind_def interpolate_linear split: list.splits)


section \<open>Properties of predict\<close>

lemmas gpr_eval = log_likelihood_def env_ex_def rbf_c_def chol_scalar_def solve_scalar_def bind_def
     shape_def np_bin2_def np_bin_def smul_def eye_def jitter_def matmul_def dot_def diagonal_def entry_def py_last_def








lemma predict_factor_cached:
  "gpr_alpha self = Some a \<Longrightarrow> predict_factor E self h s1 y1 = Inr (gpr_cc self, a)"
  by (simp add: predict_factor_def)

lemma predict_data_hyp [simp]:
  "predict_data (self\<lparr>hyperparameters := h0\<rparr>) pts = predict_data self pts"
  by (simp add: predict_data_def Let_def cong: option.case_cong if_cong)




section \<open>Properties of fit\<close>

lemma fless_irrefl [simp]: "\<not> fless a a"
  by (cases a) simp_all

lemma fless_NaN_right [simp]: "\<not> fless a NaN"
  by (cases a) simp_all






lemma mle_runs_fail:
  "mle_runs E opt s1 y1 d2 sps = (tr, Inl e) \<Longrightarrow>
   \<exists>k<length sps. tr = take (Suc k) sps
     \<and> bind (optimizer_optimize E opt (\<lambda>p. log_likelihood E p s1 y1) (sps ! k))
            (store_run E s1 y1 d2) = Inl e"
proof (induction sps arbitrary: tr)
  case Nil
  then show ?case by simp
next
  case (Cons x0 rest)
  show ?case
  proof (cases "bind (optimizer_optimize E opt (\<lambda>p. log_likelihood E p s1 y1) x0)
                     (store_run E s1 y1 d2)")
    case (Inl e')
    with Cons.prems have "tr = [x0]" "e' = e" by simp_all
    with Inl show ?thesis by (intro exI[of _ 0]) simp
  next
    case (Inr row)
    with Cons.prems obtain tr' where
        m: "mle_runs E opt s1 y1 d2 rest = (tr', Inl e)" and t: "tr = x0 # tr'"
      by (auto simp: bind_def split: sum.splits prod.splits)
    from Cons.IH[OF m] obtain k where k: "k < length rest" "tr' = take (Suc k) rest"
      "bind (optimizer_optimize E opt (\<lambda>p. log_likelihood E p s1 y1) (rest ! k))
            (store_run E s1 y1 d2) = Inl e"
      by blast
    show ?thesis
      using k t by (intro exI[of _ "Suc k"]) simp
  qed
qed



lemma fit_store_frame:
  assumes "fit_store self smp vals nopt hyp = (self1, r)"
  shows "samples self1 = Some smp
       \<and> optimizations_number self1 = (case nopt of None \<Rightarrow> optimizations_number self | Some n \<Rightarrow> n)
       \<and> hyperparameters self1 = (case hyp of None \<Rightarrow> hyperparameters self | Some h \<Rightarrow> h)
       \<and> bounds self1 = bounds self \<and> optimize self1 = optimize self
       \<and> optimizer self1 = optimizer self
       \<and> optimize_constraints self1 = optimize_constraints self
       \<and> normalize_gpr self1 = normalize_gpr self
       \<and> gpr_K self1 = gpr_K self \<and> gpr_cc self1 = gpr_cc self
       \<and> gpr_alpha self1 = gpr_alpha self"
  using assms
  by (auto simp: fit_store_def Let_def split: if_splits option.splits)


lemma fit_store_fail:
  assumes "fit_store self smp vals nopt hyp = (self1, Inl e)" and "\<not> normalize_gpr self"
  shows "values_gpr self1 = values_gpr self"
  using assms
  by (auto simp: fit_store_def Let_def bind_def split: if_splits option.splits sum.splits)



lemma upt_2: "[0..<2] = [0, Suc 0]" by (simp add: numeral_2_eq_2)
lemma upt_3: "[0..<3] = [0, Suc 0, 2]" by (simp add: numeral_3_eq_3 numeral_2_eq_2)
lemma log10_100: "log 10 100 = (2::real)"
proof -
  have "log 10 (10 ^ 2) = (2::real)" by (subst log_nat_power) simp_all
  then show ?thesis by simp
qed






lemma nll_order:
  "(100000000000000 / 2000000000001 + 2 * ln (sqrt (2000000000001 / 10000000000)) + ln (2 * pi)) / 2
   < (100000000000000 / 20000000001 + 2 * ln (sqrt (20000000001 / 10000000000)) + ln (2 * pi)) / (2::real)"
proof -
  define x :: real where "x = 2 * ln (sqrt (2000000000001 / 10000000000))"
  define y :: real where "y = 2 * ln (sqrt (20000000001 / 10000000000))"
  have b: "x \<le> 200"
  proof -
    have "ln (2000000000001 / 10000000000 :: real) \<le> 2000000000001 / 10000000000 - 1"
      by (rule ln_le_minus_one) simp
    moreover have "ln (sqrt (2000000000001 / 10000000000 :: real))
                   = ln (2000000000001 / 10000000000) / 2"
      by (rule ln_sqrt) simp
    ultimately show ?thesis unfolding x_def by simp
  qed
  have a: "0 \<le> y"
  proof -
    have "1 \<le> sqrt (20000000001 / 10000000000 :: real)" by simp
    then have "0 \<le> ln (sqrt (20000000001 / 10000000000 :: real))" by simp
    then show ?thesis unfolding y_def by simp
  qed
  have "(100000000000000 / 2000000000001 + x + ln (2 * pi)) / 2
        < (100000000000000 / 20000000001 + y + ln (2 * pi)) / 2"
    using a b by simp
  then show ?thesis unfolding x_def y_def .
qed

lemma store_ex:
  "fit_store gpr_ex [[0]] (Array1 [100]) None None
   = (gpr_ex\<lparr>samples := Some [[0]], values_gpr := Some [[100]]\<rparr>, Inr ([[0]], [[100]], 1, 1))"
  by (simp add: fit_store_def gpr_ex_def gpr_new_def shape_def np_size_def flat_def reshape_def Let_def)

lemma sp_half:
  "starting_points (env_ex draw_half) (gpr_ex\<lparr>samples := Some [[0]], values_gpr := Some [[100]], gpr_alpha := None\<rparr>) (Suc 0)
    = Inr [[0, 0, 0], [1, 1, 1]]"
  by (simp add: starting_points_def gpr_ex_def gpr_new_def broadcast_to_def bind_def Let_def
      log10_100 upt_2 upt_3 env_ex_def draw_half_def)

lemma sp_zero:
  "starting_points (env_ex draw_zero) (gpr_ex\<lparr>samples := Some [[0]], values_gpr := Some [[100]], gpr_alpha := None\<rparr>) (Suc 0)
    = Inr [[0, 0, 0], [0, 0, 0]]"
  by (simp add: starting_points_def gpr_ex_def gpr_new_def broadcast_to_def bind_def Let_def
      log10_100 upt_2 upt_3 env_ex_def draw_zero_def)

lemma nll_at_start0: "log_likelihood (env_ex u) [0, 0, 0] [[0]] [[100]]
  = Inr ((100000000000000 / 20000000001 + 2 * ln (sqrt (20000000001 / 10000000000)) + ln (2 * pi)) / 2)"
  by (simp add: gpr_eval)

lemma nll_at_start1: "log_likelihood (env_ex u) [1, 1, 1] [[0]] [[100]]
  = Inr ((100000000000000 / 2000000000001 + 2 * ln (sqrt (2000000000001 / 10000000000)) + ln (2 * pi)) / 2)"
  by (simp add: gpr_eval)

lemma env_ex_fields: "optimizer_optimize (env_ex u) = opt_eval" "kernel_c (env_ex u) = rbf_c"
  "cholesky (env_ex u) = chol_scalar" "cho_solve (env_ex u) = solve_scalar"
  by (simp_all add: env_ex_def)

lemma runs_half:
  "mle_runs (env_ex draw_half) opt [[0]] [[100]] (Suc (Suc (Suc 0))) [[0, 0, 0], [1, 1, 1]]
   = ([[0, 0, 0], [1, 1, 1]],
      Inr [([0, 0, 0],
            Fin ((100000000000000 / 20000000001 +
                  2 * ln (sqrt (20000000001 / 10000000000)) + ln (2 * pi)) / 2)),
           ([1, 1, 1],
            Fin ((100000000000000 / 2000000000001 +
                  2 * ln (sqrt (2000000000001 / 10000000000)) + ln (2 * pi)) / 2))])"
  by (simp add: env_ex_fields opt_eval_def nll_at_start0 nll_at_start1 bind_def store_run_def broadcast_to_def)

lemma runs_zero:
  "mle_runs (env_ex draw_zero) opt [[0]] [[100]] (Suc (Suc (Suc 0))) [[0, 0, 0], [0, 0, 0]]
   = ([[0, 0, 0], [0, 0, 0]],
      Inr [([0, 0, 0],
            Fin ((100000000000000 / 20000000001 +
                  2 * ln (sqrt (20000000001 / 10000000000)) + ln (2 * pi)) / 2)),
           ([0, 0, 0],
            Fin ((100000000000000 / 20000000001 +
                  2 * ln (sqrt (20000000001 / 10000000000)) + ln (2 * pi)) / 2))])"
  by (simp add: env_ex_fields opt_eval_def nll_at_start0 bind_def store_run_def broadcast_to_def)

lemma nll_order':
  "200000000000000 / 2000000000001 + 4 * ln (sqrt (2000000000001 / 10000000000))
   < 200000000000000 / 20000000001 + 4 * ln (sqrt (20000000001 / 10000000000 :: real))"
  using nll_order by simp

lemma mle_half:
  "fit_mle (env_ex draw_half) (gpr_ex\<lparr>samples := Some [[0]], values_gpr := Some [[100]]\<rparr>)
     [[0]] [[100]] (Suc 0)
   = (gpr_ex\<lparr>samples := Some [[0]], values_gpr := Some [[100]],
              optimizer := opt_ex\<lparr>opt_bounds := Some [(0, 2), (0, 2), (0, 2)]\<rparr>,
              hyperparameters := [10, 10, 10]\<rparr>,
      [[0, 0, 0], [1, 1, 1]], None)"
  by (simp add: fit_mle_def sp_half Let_def runs_half builtin_min_def np_argmin_def nll_order'
      del: mle_runs.simps) (simp add: gpr_ex_def gpr_new_def log10_100)

lemma mle_zero:
  "fit_mle (env_ex draw_zero) (gpr_ex\<lparr>samples := Some [[0]], values_gpr := Some [[100]]\<rparr>)
     [[0]] [[100]] (Suc 0)
   = (gpr_ex\<lparr>samples := Some [[0]], values_gpr := Some [[100]],
              optimizer := opt_ex\<lparr>opt_bounds := Some [(0, 2), (0, 2), (0, 2)]\<rparr>,
              hyperparameters := [1, 1, 1]\<rparr>,
      [[0, 0, 0], [0, 0, 0]], None)"
  by (simp add: fit_mle_def sp_zero Let_def runs_zero builtin_min_def np_argmin_def
      del: mle_runs.simps) (simp add: gpr_ex_def gpr_new_def log10_100)

lemma fit_half:
  "fit (env_ex draw_half) gpr_ex [[0]] (Array1 [100]) None None
   = (gpr_ex\<lparr>hyperparameters := [10, 10, 10],
              optimizer := opt_ex\<lparr>opt_bounds := Some [(0, 2), (0, 2), (0, 2)]\<rparr>,
              samples := Some [[0]], values_gpr := Some [[100]],
              gpr_K := Some [[200]],
              gpr_cc := Some [[sqrt (2000000000001 / 10000000000)]],
              gpr_alpha := Some [[1000000000000 / 2000000000001]]\<rparr>,
      [[0, 0, 0], [1, 1, 1]], None)"
  by (simp add: fit_def store_ex mle_half)
     (simp add: gpr_ex_def gpr_new_def fit_factorize_def gpr_eval)

lemma fit_zero:
  "fit (env_ex draw_zero) gpr_ex [[0]] (Array1 [100]) None None
   = (gpr_ex\<lparr>hyperparameters := [1, 1, 1],
              optimizer := opt_ex\<lparr>opt_bounds := Some [(0, 2), (0, 2), (0, 2)]\<rparr>,
              samples := Some [[0]], values_gpr := Some [[100]],
              gpr_K := Some [[2]],
              gpr_cc := Some [[sqrt (20000000001 / 10000000000)]],
              gpr_alpha := Some [[1000000000000 / 20000000001]]\<rparr>,
      [[0, 0, 0], [0, 0, 0]], None)"
  by (simp add: fit_def store_ex mle_zero)
     (simp add: gpr_ex_def gpr_new_def fit_factorize_def gpr_eval)


text \<open>The regressor of the examples is what the constructor returns.\<close>

lemma gpr_ex_constructed:
  "GaussianProcessRegressor_init [1, 1, 1] opt_ex (Some [(1, 100), (1, 100), (1, 100)]) True None 2
     False (Some 42) = Inr gpr_ex"
  by (simp add: GaussianProcessRegressor_init_def gpr_ex_def gpr_new_def)

text \<open>
  \<open>fit\<close> never reads \<open>random_state\<close>: another seed changes nothing but that field of
  the resulting instance.
\<close>

lemma fit_store_seed:
  "fit_store (self\<lparr>random_state := rs\<rparr>) smp vals nopt hyp
   = (case fit_store self smp vals nopt hyp of (self1, r) \<Rightarrow> (self1\<lparr>random_state := rs\<rparr>, r))"
  by (simp add: fit_store_def Let_def split: option.splits)

lemma starting_points_seed:
  "starting_points E (self\<lparr>random_state := rs, gpr_alpha := a\<rparr>) d
   = starting_points E (self\<lparr>gpr_alpha := a\<rparr>) d"
  by (simp add: starting_points_def)

lemma fit_mle_seed:
  "fit_mle E (self\<lparr>random_state := rs\<rparr>) s1 y1 d
   = (case fit_mle E self s1 y1 d of (self2, tr, r) \<Rightarrow> (self2\<lparr>random_state := rs\<rparr>, tr, r))"
  by (simp add: fit_mle_def starting_points_seed Let_def
      split: sum.splits prod.splits option.splits)

lemma fit_factorize_seed:
  "fit_factorize E (self\<lparr>random_state := rs\<rparr>) s1 y1 n
   = (case fit_factorize E self s1 y1 n of (self3, r) \<Rightarrow> (self3\<lparr>random_state := rs\<rparr>, r))"
  by (simp add: fit_factorize_def Let_def split: sum.splits)

lemma fit_ignores_random_state:
  "fit E (self\<lparr>random_state := rs\<rparr>) smp vals nopt hyp
   = (case fit E self smp vals nopt hyp of (self', tr, r) \<Rightarrow> (self'\<lparr>random_state := rs\<rparr>, tr, r))"
proof -
  obtain self1 r1 where st: "fit_store self smp vals nopt hyp = (self1, r1)"
    by (cases "fit_store self smp vals nopt hyp") auto
  show ?thesis
  proof (cases r1)
    case (Inl e)
    then show ?thesis by (simp add: fit_def fit_store_seed st)
  next
    case (Inr q)
    obtain s1 y1 n d where q: "q = (s1, y1, n, d)" by (cases q) auto
    obtain self2 tr2 r2 where m: "fit_mle E self1 s1 y1 d = (self2, tr2, r2)"
      by (cases "fit_mle E self1 s1 y1 d") auto
    obtain self3 r3 where f: "fit_factorize E self2 s1 y1 n = (self3, r3)"
      by (cases "fit_factorize E self2 s1 y1 n") auto
    obtain self4 r4 where g: "fit_factorize E self1 s1 y1 n = (self4, r4)"
      by (cases "fit_factorize E self1 s1 y1 n") auto
    show ?thesis
      by (cases r2)
         (simp_all add: fit_def fit_store_seed st Inr q fit_mle_seed m fit_factorize_seed f g)
  qed
qed

text \<open>
  Claim C5 at a failing input: the same regressor (seed 42), the same data and restart
  count, and two states of numpy's global generator.  The starting points of the restarts
  are drawn from the global generator, which the seed does not touch, and the two calls
  select different hyperparameters.
\<close>

theorem seed_does_not_fix_restarts:
  "random_state gpr_ex = Some 42
   \<and> hyperparameters (fst (fit (env_ex draw_zero) gpr_ex [[0]] (Array1 [100]) None None))
       = [1, 1, 1]
   \<and> hyperparameters (fst (fit (env_ex draw_half) gpr_ex [[0]] (Array1 [100]) None None))
       = [10, 10, 10]"
  by (simp add: fit_zero fit_half) (simp add: gpr_ex_def gpr_new_def)


lemma fit_stages:
  "fit E self smp vals nopt hyp =
     (case fit_store self smp vals nopt hyp of
        (self1, Inl e) \<Rightarrow> (self1, [], Some e)
      | (self1, Inr (s1, y1, n, d)) \<Rightarrow>
          if optimize self
          then (case fit_mle E self1 s1 y1 d of
                  (self2, tr, Some e) \<Rightarrow> (self2, tr, Some e)
                | (self2, tr, None) \<Rightarrow>
                    (case fit_factorize E self2 s1 y1 n of (self3, r) \<Rightarrow> (self3, tr, r)))
          else (case fit_factorize E self1 s1 y1 n of (self3, r) \<Rightarrow> (self3, [], r)))"
proof -
  obtain self1 r where st: "fit_store self smp vals nopt hyp = (self1, r)"
    by (cases "fit_store self smp vals nopt hyp") auto
  from fit_store_frame[OF st] have "optimize self1 = optimize self" by simp
  then show ?thesis
    by (simp add: fit_def st split: sum.splits prod.splits)
qed









lemma env_bad_fields: "optimizer_optimize (env_bad u) = opt_array" "kernel_c (env_bad u) = affine_c"
  "cholesky (env_bad u) = chol_scalar" "cho_solve (env_bad u) = solve_scalar"
  "global_uniform (env_bad u) = u"
  by (simp_all add: env_bad_def)

lemmas bad_eval = log_likelihood_def env_bad_fields affine_c_def chol_scalar_def solve_scalar_def
  bind_def shape_def np_bin2_def np_bin_def smul_def eye_def jitter_def matmul_def dot_def
  diagonal_def entry_def py_last_def

lemma nll_bad_start0: "log_likelihood (env_bad u) [0, 0, 0] [[0]] [[100]]
  = Inr ((100000000000000 / 20000000001 + 2 * ln (sqrt (20000000001 / 10000000000)) + ln (2 * pi)) / 2)"
  by (simp add: bad_eval)

lemma nll_bad_start1: "log_likelihood (env_bad u) [1, 1, 1] [[0]] [[100]] = Inl LinAlgError"
  by (simp add: bad_eval)

lemma sp_bad:
  "starting_points (env_bad draw_half) (gpr_ex\<lparr>samples := Some [[0]], values_gpr := Some [[100]], gpr_alpha := None\<rparr>) (Suc 0)
    = Inr [[0, 0, 0], [1, 1, 1]]"
  by (simp add: starting_points_def gpr_ex_def gpr_new_def broadcast_to_def bind_def Let_def
      log10_100 upt_2 upt_3 env_bad_fields draw_half_def)

lemma runs_bad:
  "mle_runs (env_bad draw_half) opt [[0]] [[100]] (Suc (Suc (Suc 0))) [[0, 0, 0], [1, 1, 1]]
   = ([[0, 0, 0], [1, 1, 1]], Inl LinAlgError)"
  by (simp add: env_bad_fields opt_array_def nll_bad_start0 nll_bad_start1 bind_def store_run_def broadcast_to_def)

lemma mle_bad:
  "fit_mle (env_bad draw_half) (gpr_ex\<lparr>samples := Some [[0]], values_gpr := Some [[100]]\<rparr>)
     [[0]] [[100]] (Suc 0)
   = (gpr_ex\<lparr>samples := Some [[0]], values_gpr := Some [[100]],
              optimizer := opt_ex\<lparr>opt_bounds := Some [(0, 2), (0, 2), (0, 2)]\<rparr>\<rparr>,
      [[0, 0, 0], [1, 1, 1]], Some LinAlgError)"
  by (simp add: fit_mle_def sp_bad Let_def runs_bad del: mle_runs.simps)
     (simp add: gpr_ex_def gpr_new_def log10_100)

text \<open>
  Claim C3 at a failing input: two restarts, the optimizer returns arrays; at the result of
  the first restart the objective is finite, at the result of the second the factorisation
  fails.  The error of \<open>cholesky\<close> is not turned into an infinite objective value (the
  handler in \<open>log_likelihood\<close> is commented out): it leaves \<open>fit\<close>, which ends with
  LinAlgError instead of selecting the first restart.
\<close>

theorem failed_restart_aborts_fit:
  "log_likelihood (env_bad draw_half) [0, 0, 0] [[0]] [[100]]
     = Inr ((100000000000000 / 20000000001 + 2 * ln (sqrt (20000000001 / 10000000000))
             + ln (2 * pi)) / 2)
   \<and> log_likelihood (env_bad draw_half) [1, 1, 1] [[0]] [[100]] = Inl LinAlgError
   \<and> fit (env_bad draw_half) gpr_ex [[0]] (Array1 [100]) None None
       = (gpr_ex\<lparr>samples := Some [[0]], values_gpr := Some [[100]],
                  optimizer := opt_ex\<lparr>opt_bounds := Some [(0, 2), (0, 2), (0, 2)]\<rparr>\<rparr>,
          [[0, 0, 0], [1, 1, 1]], Some LinAlgError)"
proof -
  have o: "optimize gpr_ex" by (simp add: gpr_ex_def gpr_new_def)
  show ?thesis by (simp add: nll_bad_start0 nll_bad_start1 fit_stages store_ex mle_bad o)
qed


section \<open>Properties of the objective\<close>

lemma sequence_map_Inr:
  "(\<And>x. x \<in> set xs \<Longrightarrow> f x = Inr (g x)) \<Longrightarrow> sequence (map f xs) = Inr (map g xs)"
  by (induction xs) (simp_all add: bind_def)

lemma np_bin_same:
  "length r = length q \<Longrightarrow> np_bin f r q = Inr (map (\<lambda>j. f (r ! j) (q ! j)) [0..<length r])"
  by (auto simp: np_bin_def intro!: nth_equalityI)

lemma np_bin2_same:
  assumes "length a = n" "length b = n"
    and "\<And>r. r \<in> set a \<Longrightarrow> length r = m" "\<And>r. r \<in> set b \<Longrightarrow> length r = m"
  shows "np_bin2 f a b = Inr (map (\<lambda>i. map (\<lambda>j. f (a ! i ! j) (b ! i ! j)) [0..<m]) [0..<n])"
proof -
  have "sequence (map (\<lambda>(r, q). np_bin f r q) (zip a b))
        = Inr (map (\<lambda>(r, q). map (\<lambda>j. f (r ! j) (q ! j)) [0..<m]) (zip a b))"
  proof (rule sequence_map_Inr)
    fix x assume "x \<in> set (zip a b)"
    obtain r q where x: "x = (r, q)" by (cases x) auto
    from \<open>x \<in> set (zip a b)\<close> x have r: "r \<in> set a" and q: "q \<in> set b"
      by (auto dest: set_zip_leftD set_zip_rightD)
    from r q have "length r = m" "length q = m" using assms by auto
    then show "(case x of (r, q) \<Rightarrow> np_bin f r q)
             = Inr (case x of (r, q) \<Rightarrow> map (\<lambda>j. f (r ! j) (q ! j)) [0..<m])"
      using x np_bin_same[of r q f] by simp
  qed
  moreover have "map (\<lambda>(r, q). map (\<lambda>j. f (r ! j) (q ! j)) [0..<m]) (zip a b)
               = map (\<lambda>i. map (\<lambda>j. f (a ! i ! j) (b ! i ! j)) [0..<m]) [0..<n]"
    using assms(1,2) by (auto intro!: nth_equalityI)
  ultimately show ?thesis using assms(1,2) by (simp add: np_bin2_def)
qed

lemma smul_eye_nth:
  "i < n \<Longrightarrow> j < n \<Longrightarrow> smul c (eye n) ! i ! j = (if i = j then c else 0)"
  by (simp add: smul_def eye_def)

lemma smul_eye_shape:
  "length (smul c (eye n)) = n" "r \<in> set (smul c (eye n)) \<Longrightarrow> length r = n"
  by (auto simp: smul_def eye_def)

lemma add_scaled_eye:
  assumes "length km = n" "\<And>r. r \<in> set km \<Longrightarrow> length r = n"
  shows "np_bin2 (+) km (smul c (eye n))
         = Inr (map (\<lambda>i. map (\<lambda>j. km ! i ! j + (if i = j then c else 0)) [0..<n]) [0..<n])"
proof -
  have "np_bin2 (+) km (smul c (eye n))
        = Inr (map (\<lambda>i. map (\<lambda>j. km ! i ! j + smul c (eye n) ! i ! j) [0..<n]) [0..<n])"
    using assms smul_eye_shape by (intro np_bin2_same) auto
  also have "map (\<lambda>i. map (\<lambda>j. km ! i ! j + smul c (eye n) ! i ! j) [0..<n]) [0..<n]
           = map (\<lambda>i. map (\<lambda>j. km ! i ! j + (if i = j then c else 0)) [0..<n]) [0..<n]"
    by (simp add: smul_eye_nth)
  finally show ?thesis .
qed

lemma log_likelihood_Inr_D:
  assumes "log_likelihood E p0 s y = Inr v"
  shows "\<exists>km K A L x t.
           kernel_c E s s (map (\<lambda>v. 10 powr v) (butlast p0)) = Inr km
         \<and> p0 \<noteq> []
         \<and> np_bin2 (+) km (smul ((10 powr last p0) ^ 2) (eye (length s))) = Inr K
         \<and> np_bin2 (+) K (smul jitter (eye (length s))) = Inr A
         \<and> cholesky E A = Inr L
         \<and> cho_solve E L y = Inr x
         \<and> matmul (transpose y) x = Inr t
         \<and> t \<noteq> [] \<and> t ! 0 \<noteq> []
         \<and> v = 0.5 * (t ! 0 ! 0 + 2 * (\<Sum>d\<leftarrow>diagonal L. ln \<bar>d\<bar>)
                        + real (length s) * ln (2 * pi))"
  using assms
  by (auto simp: log_likelihood_def bind_def Let_def shape_def py_last_def entry_def
      split: sum.splits list.splits if_splits)


text \<open>
  The objective returns whenever the kernel, the factorisation and the solve return and the
  product \<open>y.T @ x\<close> has an entry \<open>[0, 0]\<close>.
\<close>

lemma log_likelihood_returns:
  assumes "kernel_c E s s (map (\<lambda>v. 10 powr v) (butlast p0)) = Inr km"
    and "p0 \<noteq> []"
    and "np_bin2 (+) km (smul ((10 powr last p0) ^ 2) (eye (length s))) = Inr K"
    and "np_bin2 (+) K (smul jitter (eye (length s))) = Inr A"
    and "cholesky E A = Inr L"
    and "cho_solve E L y = Inr x"
    and "matmul (transpose y) x = Inr t"
    and "t \<noteq> []" and "t ! 0 \<noteq> []"
  shows "log_likelihood E p0 s y
         = Inr (0.5 * (t ! 0 ! 0 + 2 * (\<Sum>d\<leftarrow>diagonal L. ln \<bar>d\<bar>)
                         + real (length s) * ln (2 * pi)))"
  using assms
  by (cases p0; cases t)
     (simp_all add: log_likelihood_def bind_def Let_def shape_def py_last_def entry_def)

text \<open>
  Claim C1, as amended.  Let \<open>cholesky\<close> and \<open>cho_solve\<close> keep their contracts
  (the factor has a positive diagonal, so every logarithm is taken of a positive number).
  Whenever \<open>log_likelihood\<close> returns a value \<open>v\<close>, then \<open>v\<close> is
  \<open>0.5 * (t[0, 0] + 2 * sum (log |diag L|) + n * log (2 * pi))\<close> where
  \<open>t = y.T @ x\<close>, \<open>x\<close> solves \<open>A @ x = y\<close>, \<open>L\<close> is the factor of \<open>A\<close>
  (\<open>L @ L.T = A\<close>) and \<open>A\<close> is the jittered matrix: the kernel matrix at the
  hyperparameters \<open>10 ** p0[:-1]\<close> plus \<open>(10 ** p0[-1]) ** 2 + 1e-10\<close> on the
  diagonal (entry by entry when the kernel matrix is square of the size of \<open>s\<close>).  The
  quadratic term is thus taken with the inverse of the jittered matrix, not of \<open>K\<close>.
\<close>

theorem log_likelihood_formula:
  assumes "cholesky_contract E" and "cho_solve_contract E"
    and "log_likelihood E p0 s y = Inr v"
  shows "\<exists>km A L x t.
           kernel_c E s s (map (\<lambda>v. 10 powr v) (butlast p0)) = Inr km
         \<and> bind (np_bin2 (+) km (smul ((10 powr last p0) ^ 2) (eye (length s))))
                (\<lambda>K. np_bin2 (+) K (smul jitter (eye (length s)))) = Inr A
         \<and> (length km = length s \<and> (\<forall>r \<in> set km. length r = length s) \<longrightarrow>
              A = map (\<lambda>i. map (\<lambda>j. km ! i ! j
                                      + (if i = j then (10 powr last p0) ^ 2 + jitter else 0))
                            [0..<length s]) [0..<length s])
         \<and> cholesky E A = Inr L \<and> matmul L (transpose L) = Inr A
         \<and> list_all (\<lambda>d. 0 < d) (diagonal L)
         \<and> matmul A x = Inr y
         \<and> matmul (transpose y) x = Inr t
         \<and> v = 0.5 * (t ! 0 ! 0 + 2 * (\<Sum>d\<leftarrow>diagonal L. ln \<bar>d\<bar>)
                        + real (length s) * ln (2 * pi))"
proof -
  define n where "n = length s"
  define c where "c = (10 powr last p0) ^ 2"
  from log_likelihood_Inr_D[OF assms(3)] obtain km K A L x t where
      km: "kernel_c E s s (map (\<lambda>v. 10 powr v) (butlast p0)) = Inr km"
      and K: "np_bin2 (+) km (smul c (eye n)) = Inr K"
      and A: "np_bin2 (+) K (smul jitter (eye n)) = Inr A"
      and L: "cholesky E A = Inr L"
      and x: "cho_solve E L y = Inr x"
      and t: "matmul (transpose y) x = Inr t"
      and v: "v = 0.5 * (t ! 0 ! 0 + 2 * (\<Sum>d\<leftarrow>diagonal L. ln \<bar>d\<bar>) + real n * ln (2 * pi))"
    unfolding n_def c_def by blast
  from assms(1) L have LL: "matmul L (transpose L) = Inr A"
    and pos: "list_all (\<lambda>d. 0 < d) (diagonal L)"
    by (simp_all add: cholesky_contract_def)
  from assms(2) L x have Ax: "matmul A x = Inr y"
    unfolding cho_solve_contract_def by blast
  have KA: "bind (np_bin2 (+) km (smul c (eye n))) (\<lambda>K. np_bin2 (+) K (smul jitter (eye n))) = Inr A"
    using K A by (simp add: bind_def)
  have ent: "length km = n \<and> (\<forall>r \<in> set km. length r = n) \<longrightarrow>
              A = map (\<lambda>i. map (\<lambda>j. km ! i ! j + (if i = j then c + jitter else 0)) [0..<n]) [0..<n]"
  proof
    assume sh: "length km = n \<and> (\<forall>r \<in> set km. length r = n)"
    define K' where "K' = map (\<lambda>i. map (\<lambda>j. km ! i ! j + (if i = j then c else 0)) [0..<n]) [0..<n]"
    have "np_bin2 (+) km (smul c (eye n)) = Inr K'"
      unfolding K'_def using sh by (intro add_scaled_eye) auto
    with K have K_eq: "K = K'" by simp
    have "np_bin2 (+) K' (smul jitter (eye n))
          = Inr (map (\<lambda>i. map (\<lambda>j. K' ! i ! j + (if i = j then jitter else 0)) [0..<n]) [0..<n])"
      by (intro add_scaled_eye) (auto simp: K'_def)
    with A K_eq have "A = map (\<lambda>i. map (\<lambda>j. K' ! i ! j + (if i = j then jitter else 0)) [0..<n]) [0..<n]"
      by simp
    also have "\<dots> = map (\<lambda>i. map (\<lambda>j. km ! i ! j + (if i = j then c + jitter else 0)) [0..<n]) [0..<n]"
      by (auto simp: K'_def)
    finally show "A = map (\<lambda>i. map (\<lambda>j. km ! i ! j + (if i = j then c + jitter else 0)) [0..<n]) [0..<n]" .
  qed
  from km KA ent L LL pos Ax t v show ?thesis
    unfolding n_def c_def by blast
qed

lemma transpose_single: "transpose [r] = map (\<lambda>v. [v]) r"
  by (induction r) simp_all

lemma chol_scalar_D:
  "chol_scalar A = Inr L \<Longrightarrow> \<exists>a. A = [[a]] \<and> 0 < a \<and> L = [[sqrt a]]"
  by (auto simp: chol_scalar_def split: list.splits if_splits)

lemma solve_scalar_D:
  "solve_scalar [[l]] b = Inr x \<Longrightarrow> \<exists>r. b = [r] \<and> x = [map (\<lambda>v. v / (l * l)) r]"
  by (auto simp: solve_scalar_def split: list.splits)

lemma env_ex_cholesky_contract: "cholesky_contract (env_ex u)"
  unfolding cholesky_contract_def
proof (intro allI impI)
  fix A L assume "cholesky (env_ex u) A = Inr L"
  then have "chol_scalar A = Inr L" by (simp add: env_ex_def)
  from chol_scalar_D[OF this] obtain a where a: "A = [[a]]" "0 < a" "L = [[sqrt a]]" by blast
  then show "matmul L (transpose L) = Inr A \<and> list_all (\<lambda>d. 0 < d) (diagonal L)"
    by (simp add: matmul_def dot_def diagonal_def shape_def)
qed

lemma env_ex_cho_solve_contract: "cho_solve_contract (env_ex u)"
  unfolding cho_solve_contract_def
proof (intro allI impI)
  fix A L b x assume h: "cholesky (env_ex u) A = Inr L \<and> cho_solve (env_ex u) L b = Inr x"
  then have "chol_scalar A = Inr L" by (simp add: env_ex_def)
  from chol_scalar_D[OF this] obtain a where a: "A = [[a]]" "0 < a" "L = [[sqrt a]]" by blast
  from h a have "solve_scalar [[sqrt a]] b = Inr x" by (simp add: env_ex_def)
  from solve_scalar_D[OF this] obtain r where
      r: "b = [r]" "x = [map (\<lambda>v. v / (sqrt a * sqrt a)) r]" by blast
  have "map (\<lambda>c. dot [a] c) (transpose x) = r"
    using a(2) by (simp add: r transpose_single dot_def comp_def)
  then show "matmul A x = Inr b"
    using a r by (simp add: matmul_def)
qed

lemma nll_unit:
  "log_likelihood (env_ex u) [0, 0, 0] [[0]] [[1]]
   = Inr ((10000000000 / 20000000001 + 2 * ln (sqrt (20000000001 / 10000000000))
           + ln (2 * pi)) / 2)"
  by (simp add: gpr_eval)

text \<open>
  Witness for C1: the instances for systems with one equation keep the two contracts, and
  the objective at \<open>p0 = [0, 0, 0]\<close>, one training point and the output 1 has the stated
  form.
\<close>

theorem log_likelihood_formula_witness:
  "cholesky_contract (env_ex draw_zero) \<and> cho_solve_contract (env_ex draw_zero)
   \<and> log_likelihood (env_ex draw_zero) [0, 0, 0] [[0]] [[1]]
       = Inr ((10000000000 / 20000000001 + 2 * ln (sqrt (20000000001 / 10000000000))
               + ln (2 * pi)) / 2)
   \<and> (\<exists>A L x t. cholesky (env_ex draw_zero) A = Inr L \<and> matmul A x = Inr [[1]]
         \<and> matmul (transpose [[1]]) x = Inr t
         \<and> (10000000000 / 20000000001 + 2 * ln (sqrt (20000000001 / 10000000000))
               + ln (2 * pi)) / 2
           = 0.5 * (t ! 0 ! 0 + 2 * (\<Sum>d\<leftarrow>diagonal L. ln \<bar>d\<bar>)
                      + real (length [[0 :: real]]) * ln (2 * pi)))"
  using log_likelihood_formula[OF env_ex_cholesky_contract[of draw_zero]
      env_ex_cho_solve_contract[of draw_zero] nll_unit[of draw_zero]]
    env_ex_cholesky_contract[of draw_zero] env_ex_cho_solve_contract[of draw_zero]
    nll_unit[of draw_zero]
  by blast

text \<open>
  Counterexample to C1 as stated: one training point, output 1, \<open>p0 = [0, 0, 0]\<close>.  Then
  \<open>K = [[2]]\<close>, \<open>K\<^sup>-\<^sup>1 y = [[1/2]]\<close> and \<open>L = [[sqrt (2 + 1e-10)]]\<close>, so
  the claimed value is \<open>0.5 * (1/2 + 2 * log (sqrt (2 + 1e-10)) + log (2 * pi))\<close>; the
  function returns another number, with \<open>1 / (2 + 1e-10)\<close> in place of \<open>1/2\<close>.
\<close>

theorem quadratic_term_uses_jitter:
  "bind (rbf_c [[0]] [[0]] (map (\<lambda>v. 10 powr v) (butlast [0, 0, 0])))
        (\<lambda>km. np_bin2 (+) km (smul ((10 powr last [0, 0, 0]) ^ 2) (eye 1))) = Inr [[2]]
   \<and> matmul [[2]] [[1 / 2]] = Inr [[1]]
   \<and> bind (np_bin2 (+) [[2]] (smul jitter (eye 1))) chol_scalar = Inr [[sqrt (2 + jitter)]]
   \<and> log_likelihood (env_ex draw_zero) [0, 0, 0] [[0]] [[1]]
       \<noteq> Inr (0.5 * (1 * (1 / 2) + 2 * ln \<bar>sqrt (2 + jitter)\<bar> + 1 * ln (2 * pi)))"
proof -
  have 1: "bind (rbf_c [[0]] [[0]] (map (\<lambda>v. 10 powr v) (butlast [0, 0, 0])))
        (\<lambda>km. np_bin2 (+) km (smul ((10 powr last [0, 0, 0]) ^ 2) (eye 1))) = Inr [[2]]"
    by (simp add: gpr_eval)
  have 2: "matmul [[2]] [[1 / 2]] = Inr [[1]]"
    by (simp add: gpr_eval)
  have 3: "bind (np_bin2 (+) [[2]] (smul jitter (eye 1))) chol_scalar = Inr [[sqrt (2 + jitter)]]"
    by (simp add: gpr_eval)
  have 4: "(10000000000 / 20000000001 + 2 * ln (sqrt (20000000001 / 10000000000))
               + ln (2 * pi)) / 2
           \<noteq> 0.5 * (1 * (1 / 2) + 2 * ln \<bar>sqrt (2 + jitter)\<bar> + 1 * ln (2 * pi))"
    by (simp add: jitter_def)
  from 1 2 3 4 show ?thesis by (simp only: nll_unit sum.inject) simp
qed


end
